theory Spec2Isabelle
  imports Complex_Main "HOL-Library.Sublist"
begin

section \<open>Numbers\<close>

text \<open>
  The store keeps volumes, levels, progress and durations as JavaScript numbers. The
  operations used on them by the code are \<^verbatim>\<open>Math.min\<close>, \<^verbatim>\<open>Math.max\<close> and comparison,
  which never round, so a number is modelled as a rational, one of the two infinities, or
  NaN. The sign of zero is not modelled.
\<close>

datatype number = NaN | NegInfinity | Fin rat | PosInfinity

text \<open>\<^verbatim>\<open>a <= b\<close> on numbers: false as soon as one side is NaN.\<close>

fun num_le :: "number \<Rightarrow> number \<Rightarrow> bool" where
  "num_le NaN y = False"
| "num_le x NaN = False"
| "num_le NegInfinity y = True"
| "num_le x PosInfinity = True"
| "num_le (Fin a) (Fin b) = (a \<le> b)"
| "num_le PosInfinity y = False"
| "num_le x NegInfinity = False"

text \<open>\<^verbatim>\<open>a < b\<close> on numbers.\<close>

fun num_less :: "number \<Rightarrow> number \<Rightarrow> bool" where
  "num_less NaN y = False"
| "num_less x NaN = False"
| "num_less PosInfinity y = False"
| "num_less x NegInfinity = False"
| "num_less (Fin a) (Fin b) = (a < b)"
| "num_less NegInfinity y = True"
| "num_less x PosInfinity = True"

text \<open>\<^verbatim>\<open>Math.min(a, b)\<close> and \<^verbatim>\<open>Math.max(a, b)\<close>: NaN if either argument is NaN.\<close>

fun Math_min :: "number \<Rightarrow> number \<Rightarrow> number" where
  "Math_min NaN y = NaN"
| "Math_min x NaN = NaN"
| "Math_min NegInfinity y = NegInfinity"
| "Math_min x NegInfinity = NegInfinity"
| "Math_min PosInfinity y = y"
| "Math_min x PosInfinity = x"
| "Math_min (Fin a) (Fin b) = Fin (min a b)"

fun Math_max :: "number \<Rightarrow> number \<Rightarrow> number" where
  "Math_max NaN y = NaN"
| "Math_max x NaN = NaN"
| "Math_max PosInfinity y = PosInfinity"
| "Math_max x PosInfinity = PosInfinity"
| "Math_max NegInfinity y = y"
| "Math_max x NegInfinity = x"
| "Math_max (Fin a) (Fin b) = Fin (max a b)"

section \<open>Data model (types/index.ts)\<close>

datatype ProcessingStatus = Pending | Processing | Separating | Diarizing | Complete | Failed

datatype TrackType = Speaker | Noise | Vocals | Drums | Bass | Other

datatype OutputFormat = Wav | Mp3 | Flac

record SpeakerSegment =
  seg_start :: number
  seg_end :: number
  speaker_id :: string
  confidence :: number

record Track =
  t_id :: string
  t_name :: string
  t_type :: TrackType
  file_path :: string
  duration_seconds :: number
  segments :: "SpeakerSegment list"
  waveform_data :: "number list option"
  color :: string

text \<open>\<^verbatim>\<open>TrackUIState extends Track\<close>: the track with its mix parameters.\<close>

record TrackUIState = Track +
  muted :: bool
  solo :: bool
  volume :: number
  isMain :: bool

record TrackConfig =
  track_id :: string
  cfg_muted :: bool
  cfg_solo :: bool
  cfg_volume :: number
  is_main :: bool

record MixConfig =
  job_id :: string
  cfg_tracks :: "TrackConfig list"
  main_speaker_boost_db :: number
  noise_reduction_level :: number
  output_format :: string
  cfg_normalize :: bool

record AnalysisResult =
  r_job_id :: string
  r_status :: ProcessingStatus
  original_filename :: string
  r_duration_seconds :: number
  speaker_count :: number
  r_tracks :: "Track list"
  created_at :: string
  completed_at :: "string option"
  error_message :: "string option"

record JobStatusResponse =
  js_job_id :: string
  js_status :: ProcessingStatus
  js_progress :: number
  current_step :: string
  js_result :: "AnalysisResult option"

record File =
  file_name :: string
  file_size :: nat

record AppState =
  uploadedFile :: "File option"
  uploadProgress :: number
  jobId :: "string option"
  status :: ProcessingStatus
  progress :: number
  currentStep :: string
  result :: "AnalysisResult option"
  tracks :: "TrackUIState list"
  mainSpeakerBoostDb :: number
  noiseReductionLevel :: number
  outputFormat :: OutputFormat
  normalize :: bool
  isPlaying :: bool
  currentTime :: number
  isExporting :: bool
  exportUrl :: "string option"
  error :: "string option"

section \<open>The store (stores/useStore.ts)\<close>

definition initialState :: AppState where
  "initialState =
     \<lparr> uploadedFile = None, uploadProgress = Fin 0, jobId = None, status = Pending,
       progress = Fin 0, currentStep = [], result = None, tracks = [],
       mainSpeakerBoostDb = Fin 3, noiseReductionLevel = Fin 0, outputFormat = Wav,
       normalize = True, isPlaying = False, currentTime = Fin 0, isExporting = False,
       exportUrl = None, error = None \<rparr>"

text \<open>
  The plain setters: zustand's \<^verbatim>\<open>set\<close> merges the given fields into the state.
\<close>

definition setUploadedFile :: "File option \<Rightarrow> AppState \<Rightarrow> AppState" where
  "setUploadedFile file s = s\<lparr>uploadedFile := file\<rparr>"

definition setJobId :: "string option \<Rightarrow> AppState \<Rightarrow> AppState" where
  "setJobId j s = s\<lparr>jobId := j\<rparr>"

definition setStatus :: "ProcessingStatus \<Rightarrow> AppState \<Rightarrow> AppState" where
  "setStatus st s = s\<lparr>status := st\<rparr>"

definition setProgress :: "number \<Rightarrow> AppState \<Rightarrow> AppState" where
  "setProgress p s = s\<lparr>progress := p\<rparr>"

definition setCurrentStep :: "string \<Rightarrow> AppState \<Rightarrow> AppState" where
  "setCurrentStep c s = s\<lparr>currentStep := c\<rparr>"

text \<open>
  \<^verbatim>\<open>{ ...track, muted: false, solo: false, volume: 1.0,
     isMain: index === 0 && track.type === 'speaker' }\<close>
\<close>

definition defaultUIState :: "nat \<Rightarrow> Track \<Rightarrow> TrackUIState" where
  "defaultUIState index track =
     \<lparr> t_id = t_id track, t_name = t_name track, t_type = t_type track,
       file_path = file_path track, duration_seconds = duration_seconds track,
       segments = segments track, waveform_data = waveform_data track, color = color track,
       muted = False, solo = False, volume = Fin 1,
       isMain = (index = 0 \<and> t_type track = Speaker) \<rparr>"

definition setResult :: "AnalysisResult option \<Rightarrow> AppState \<Rightarrow> AppState" where
  "setResult r s =
     (case r of
        Some res \<Rightarrow>
          s\<lparr>result := Some res,
            tracks := map (\<lambda>(index, track). defaultUIState index track)
                          (enumerate 0 (r_tracks res))\<rparr>
      | None \<Rightarrow> s\<lparr>result := None, tracks := []\<rparr>)"

definition setTracks :: "TrackUIState list \<Rightarrow> AppState \<Rightarrow> AppState" where
  "setTracks ts s = s\<lparr>tracks := ts\<rparr>"

definition toggleTrackMute :: "string \<Rightarrow> AppState \<Rightarrow> AppState" where
  "toggleTrackMute trackId s =
     s\<lparr>tracks := map (\<lambda>track. if t_id track = trackId
                                  then track\<lparr>muted := \<not> muted track\<rparr> else track)
                     (tracks s)\<rparr>"

definition toggleTrackSolo :: "string \<Rightarrow> AppState \<Rightarrow> AppState" where
  "toggleTrackSolo trackId s =
     s\<lparr>tracks := map (\<lambda>track. if t_id track = trackId
                                  then track\<lparr>solo := \<not> solo track\<rparr> else track)
                     (tracks s)\<rparr>"

definition setTrackVolume :: "string \<Rightarrow> number \<Rightarrow> AppState \<Rightarrow> AppState" where
  "setTrackVolume trackId v s =
     s\<lparr>tracks := map (\<lambda>track. if t_id track = trackId
                                  then track\<lparr>volume := Math_max (Fin 0) (Math_min (Fin 2) v)\<rparr>
                                  else track)
                     (tracks s)\<rparr>"

definition setMainSpeaker :: "string \<Rightarrow> AppState \<Rightarrow> AppState" where
  "setMainSpeaker trackId s =
     s\<lparr>tracks := map (\<lambda>track. track\<lparr>isMain := (t_id track = trackId)\<rparr>) (tracks s)\<rparr>"

definition setMainSpeakerBoostDb :: "number \<Rightarrow> AppState \<Rightarrow> AppState" where
  "setMainSpeakerBoostDb db s = s\<lparr>mainSpeakerBoostDb := db\<rparr>"

definition setNoiseReductionLevel :: "number \<Rightarrow> AppState \<Rightarrow> AppState" where
  "setNoiseReductionLevel level s = s\<lparr>noiseReductionLevel := level\<rparr>"

definition setOutputFormat :: "OutputFormat \<Rightarrow> AppState \<Rightarrow> AppState" where
  "setOutputFormat f s = s\<lparr>outputFormat := f\<rparr>"

definition setNormalize :: "bool \<Rightarrow> AppState \<Rightarrow> AppState" where
  "setNormalize n s = s\<lparr>normalize := n\<rparr>"

definition setIsPlaying :: "bool \<Rightarrow> AppState \<Rightarrow> AppState" where
  "setIsPlaying b s = s\<lparr>isPlaying := b\<rparr>"

definition setCurrentTime :: "number \<Rightarrow> AppState \<Rightarrow> AppState" where
  "setCurrentTime t s = s\<lparr>currentTime := t\<rparr>"

definition setIsExporting :: "bool \<Rightarrow> AppState \<Rightarrow> AppState" where
  "setIsExporting b s = s\<lparr>isExporting := b\<rparr>"

definition setExportUrl :: "string option \<Rightarrow> AppState \<Rightarrow> AppState" where
  "setExportUrl u s = s\<lparr>exportUrl := u\<rparr>"

definition setError :: "string option \<Rightarrow> AppState \<Rightarrow> AppState" where
  "setError e s = s\<lparr>error := e\<rparr>"

text \<open>
  \<^verbatim>\<open>reset: () => set(initialState)\<close>: every field of the state is named in
  \<^verbatim>\<open>initialState\<close>, so the merge overwrites each of them.
\<close>

definition reset :: "AppState \<Rightarrow> AppState" where
  "reset s =
     s\<lparr> uploadedFile := uploadedFile initialState,
        uploadProgress := uploadProgress initialState,
        jobId := jobId initialState,
        status := status initialState,
        progress := progress initialState,
        currentStep := currentStep initialState,
        result := result initialState,
        tracks := tracks initialState,
        mainSpeakerBoostDb := mainSpeakerBoostDb initialState,
        noiseReductionLevel := noiseReductionLevel initialState,
        outputFormat := outputFormat initialState,
        normalize := normalize initialState,
        isPlaying := isPlaying initialState,
        currentTime := currentTime initialState,
        isExporting := isExporting initialState,
        exportUrl := exportUrl initialState,
        error := error initialState \<rparr>"

definition formatString :: "OutputFormat \<Rightarrow> string" where
  "formatString f = (case f of Wav \<Rightarrow> ''wav'' | Mp3 \<Rightarrow> ''mp3'' | Flac \<Rightarrow> ''flac'')"

definition toTrackConfig :: "TrackUIState \<Rightarrow> TrackConfig" where
  "toTrackConfig track =
     \<lparr> track_id = t_id track, cfg_muted = muted track, cfg_solo = solo track,
       cfg_volume = volume track, is_main = isMain track \<rparr>"

text \<open>\<^verbatim>\<open>job_id: state.jobId || ''\<close>: a null or empty job id gives the empty string.\<close>

definition getMixConfig :: "AppState \<Rightarrow> MixConfig" where
  "getMixConfig state =
     \<lparr> job_id = (case jobId state of None \<Rightarrow> [] | Some j \<Rightarrow> j),
       cfg_tracks = map toTrackConfig (tracks state),
       main_speaker_boost_db = mainSpeakerBoostDb state,
       noise_reduction_level = noiseReductionLevel state,
       output_format = formatString (outputFormat state),
       cfg_normalize = normalize state \<rparr>"

subsection \<open>Sequences of track operations\<close>

text \<open>
  The four per-track actions of the store, as values, so that the states the user can reach
  from a freshly set result are the runs of a list of them.
\<close>

datatype TrackOp =
    ToggleTrackMute string
  | ToggleTrackSolo string
  | SetTrackVolume string number
  | SetMainSpeaker string

fun applyOp :: "TrackOp \<Rightarrow> AppState \<Rightarrow> AppState" where
  "applyOp (ToggleTrackMute trackId) s = toggleTrackMute trackId s"
| "applyOp (ToggleTrackSolo trackId) s = toggleTrackSolo trackId s"
| "applyOp (SetTrackVolume trackId v) s = setTrackVolume trackId v s"
| "applyOp (SetMainSpeaker trackId) s = setMainSpeaker trackId s"

fun runOps :: "TrackOp list \<Rightarrow> AppState \<Rightarrow> AppState" where
  "runOps [] s = s"
| "runOps (op # ops) s = runOps ops (applyOp op s)"

definition mainCount :: "AppState \<Rightarrow> nat" where
  "mainCount s = length (filter isMain (tracks s))"

definition configMainCount :: "MixConfig \<Rightarrow> nat" where
  "configMainCount c = length (filter is_main (cfg_tracks c))"

text \<open>Whether a list of operations sets the volume of the given track.\<close>

fun setsVolumeOf :: "string \<Rightarrow> TrackOp \<Rightarrow> bool" where
  "setsVolumeOf trackId (SetTrackVolume i v) = (i = trackId)"
| "setsVolumeOf trackId op = False"

subsection \<open>Sample inputs\<close>

definition sampleTrack :: "string \<Rightarrow> TrackType \<Rightarrow> Track" where
  "sampleTrack i ty =
     \<lparr> t_id = i, t_name = i, t_type = ty, file_path = [], duration_seconds = Fin 10,
       segments = [], waveform_data = None, color = [] \<rparr>"

definition sampleResult :: "Track list \<Rightarrow> AnalysisResult" where
  "sampleResult ts =
     \<lparr> r_job_id = ''job'', r_status = Complete, original_filename = ''talk.wav'',
       r_duration_seconds = Fin 10, speaker_count = Fin 1, r_tracks = ts,
       created_at = [], completed_at = None, error_message = None \<rparr>"

section \<open>The hooks (hooks/useAudioAnalysis.ts)\<close>

subsection \<open>Requests, responses and failures of the API\<close>

record ExportResponse =
  download_url :: string
  ex_filename :: string
  file_size_bytes :: number
  ex_duration_seconds :: number
  ex_format :: string

record PreviewResponse =
  preview_url :: string
  pv_duration_seconds :: number

text \<open>
  What a \<^verbatim>\<open>catch\<close> block reads from a failed call: \<^verbatim>\<open>error.response?.data?.detail\<close>
  and \<^verbatim>\<open>error.message\<close>, either of which may be missing.
\<close>

record ApiError =
  detail :: "string option"
  message :: "string option"

text \<open>An awaited call either throws or gives its response.\<close>

datatype 'a Outcome = Rejected ApiError | Resolved 'a

text \<open>
  \<^verbatim>\<open>a || b || 'fallback'\<close> on strings that may be missing: the first one that is neither
  missing nor empty.
\<close>

fun firstTruthy :: "string option list \<Rightarrow> string \<Rightarrow> string" where
  "firstTruthy [] fallback = fallback"
| "firstTruthy (None # xs) fallback = firstTruthy xs fallback"
| "firstTruthy (Some t # xs) fallback = (if t = [] then firstTruthy xs fallback else t)"

text \<open>\<^verbatim>\<open>!jobId\<close> is true for null and for the empty string.\<close>

definition noJob :: "AppState \<Rightarrow> bool" where
  "noJob s = (case jobId s of None \<Rightarrow> True | Some j \<Rightarrow> j = [])"

text \<open>
  \<^verbatim>\<open>getAudioUrl(path)\<close>; the base URL comes from the build environment and is a parameter.
\<close>

definition getAudioUrl :: "string \<Rightarrow> string \<Rightarrow> string" where
  "getAudioUrl API_BASE_URL path = (if prefix ''http'' path then path else API_BASE_URL @ path)"

record PreviewRequest =
  pr_job_id :: string
  pr_mix_config :: MixConfig
  start_time :: number
  pr_duration :: number

record ExportRequest =
  er_job_id :: string
  er_mix_config :: MixConfig
  er_filename :: "string option"

subsection \<open>Polling the job status\<close>

text \<open>
  The polling loop of \<^verbatim>\<open>pollJobStatus\<close>: the store, whether the interval is registered
  (\<^verbatim>\<open>pollingRef.current\<close>), the number of status requests sent so far, and the number of
  them that are still awaiting their answer. The interval sends a request every two
  seconds without waiting for the answer to the previous one, so several can await their
  answer at once.
\<close>

record Poller =
  store :: AppState
  polling :: bool
  sent :: nat
  inFlight :: nat

definition stopPolling :: "Poller \<Rightarrow> Poller" where
  "stopPolling p = p\<lparr>polling := False\<rparr>"

text \<open>
  \<^verbatim>\<open>poll\<close> up to its \<^verbatim>\<open>await\<close>: the request \<^verbatim>\<open>audioApi.getJobStatus(jobId)\<close> is sent.
\<close>

definition poll_send :: "Poller \<Rightarrow> Poller" where
  "poll_send p = p\<lparr>sent := Suc (sent p), inFlight := Suc (inFlight p)\<rparr>"

text \<open>
  \<^verbatim>\<open>poll\<close> after its \<^verbatim>\<open>await\<close>: the answer is handled. Nothing here asks whether the
  interval is still registered.
\<close>

definition poll_handle :: "JobStatusResponse Outcome \<Rightarrow> Poller \<Rightarrow> Poller" where
  "poll_handle outcome p =
     (case outcome of
        Resolved st \<Rightarrow>
          (let s1 = setCurrentStep (current_step st)
                      (setProgress (js_progress st) (setStatus (js_status st) (store p)))
           in if js_status st = Complete \<and> js_result st \<noteq> None
              then stopPolling (p\<lparr>store := setResult (js_result st) s1\<rparr>)
              else if js_status st = Failed
              then stopPolling
                     (p\<lparr>store := setError
                         (Some (firstTruthy [Option.bind (js_result st) error_message]
                                  ''Processing failed'')) s1\<rparr>)
              else p\<lparr>store := s1\<rparr>)
      | Rejected e \<Rightarrow>
          stopPolling (p\<lparr>store := setError (Some ''Failed to get job status'') (store p)\<rparr>))"

text \<open>
  \<^verbatim>\<open>pollJobStatus(jobId)\<close>: a registered interval is cleared, \<^verbatim>\<open>poll()\<close> sends the first
  request at once, and the interval is registered.
\<close>

definition pollJobStatus :: "Poller \<Rightarrow> Poller" where
  "pollJobStatus p = (poll_send (stopPolling p))\<lparr>polling := True\<rparr>"

text \<open>
  What happens to the loop afterwards: the interval fires, or the answer to one of the
  requests arrives. Answers arrive in any order, each with what the endpoint reported
  when it served that request.
\<close>

datatype PollEvent = Fire | Arrive "JobStatusResponse Outcome"

text \<open>
  The interval fires only while it is registered. An answer arrives only while a request
  awaits one, and is then handled whether or not the interval is still registered.
\<close>

fun step :: "PollEvent \<Rightarrow> Poller \<Rightarrow> Poller" where
  "step Fire p = (if polling p then poll_send p else p)"
| "step (Arrive outcome) p =
     (if inFlight p = 0 then p
      else poll_handle outcome (p\<lparr>inFlight := inFlight p - 1\<rparr>))"

fun run :: "PollEvent list \<Rightarrow> Poller \<Rightarrow> Poller" where
  "run [] p = p"
| "run (ev # evs) p = run evs (step ev p)"

text \<open>The answers that stop the loop.\<close>

fun stops :: "JobStatusResponse Outcome \<Rightarrow> bool" where
  "stops (Rejected e) = True"
| "stops (Resolved st) =
     (js_status st = Failed \<or> (js_status st = Complete \<and> js_result st \<noteq> None))"

text \<open>
  The progress held in the store after each status response handled while the interval
  is registered.
\<close>

fun progressTrace :: "PollEvent list \<Rightarrow> Poller \<Rightarrow> number list" where
  "progressTrace [] p = []"
| "progressTrace (Fire # evs) p = progressTrace evs (step Fire p)"
| "progressTrace (Arrive (Rejected e) # evs) p = progressTrace evs (step (Arrive (Rejected e)) p)"
| "progressTrace (Arrive (Resolved st) # evs) p =
     (if inFlight p \<noteq> 0 \<and> polling p
      then progress (store (step (Arrive (Resolved st)) p))
             # progressTrace evs (step (Arrive (Resolved st)) p)
      else progressTrace evs (step (Arrive (Resolved st)) p))"

text \<open>The progress reported by the status responses among the events, in their order.\<close>

fun reportedProgress :: "PollEvent list \<Rightarrow> number list" where
  "reportedProgress [] = []"
| "reportedProgress (Arrive (Resolved st) # evs) = js_progress st # reportedProgress evs"
| "reportedProgress (ev # evs) = reportedProgress evs"

text \<open>No element of the list is smaller than one before it.\<close>

definition neverDecreases :: "number list \<Rightarrow> bool" where
  "neverDecreases xs = sorted_wrt (\<lambda>a b. \<not> num_less b a) xs"

definition sampleStatus :: "ProcessingStatus \<Rightarrow> rat \<Rightarrow> AnalysisResult option \<Rightarrow> JobStatusResponse" where
  "sampleStatus st p r =
     \<lparr> js_job_id = ''job'', js_status = st, js_progress = Fin p, current_step = [],
       js_result = r \<rparr>"

text \<open>The loop before \<^verbatim>\<open>pollJobStatus\<close> is called for an uploaded job.\<close>

definition idlePoller :: Poller where
  "idlePoller =
     \<lparr> store = setStatus Processing (setJobId (Some ''job'') initialState),
       polling = False, sent = 0, inFlight = 0 \<rparr>"

subsection \<open>Export\<close>

text \<open>
  \<^verbatim>\<open>useAudioExport\<close>: the store and the hook's own \<^verbatim>\<open>isExporting\<close>. The call runs in two
  parts, before and after the awaited request.
\<close>

record Exporter =
  e_store :: AppState
  e_isExporting :: bool

definition exportAudio_begin :: "Exporter \<Rightarrow> Exporter" where
  "exportAudio_begin x =
     x\<lparr>e_isExporting := True, e_store := setError None (setIsExporting True (e_store x))\<rparr>"

definition exportRequest :: "string option \<Rightarrow> AppState \<Rightarrow> ExportRequest option" where
  "exportRequest filename s =
     (case jobId s of
        None \<Rightarrow> None
      | Some j \<Rightarrow>
          if j = [] then None
          else Some \<lparr> er_job_id = j,
                      er_mix_config = getMixConfig (setError None (setIsExporting True s)),
                      er_filename = filename \<rparr>)"

definition exportAudio_settle :: "string \<Rightarrow> ExportResponse Outcome \<Rightarrow> Exporter \<Rightarrow> Exporter" where
  "exportAudio_settle API_BASE_URL outcome x =
     (let s1 = (case outcome of
                  Resolved response \<Rightarrow>
                    setExportUrl (Some (getAudioUrl API_BASE_URL (download_url response)))
                      (e_store x)
                | Rejected e \<Rightarrow>
                    setError (Some (firstTruthy [detail e, message e] ''Export failed''))
                      (e_store x))
      in x\<lparr>e_isExporting := False, e_store := setIsExporting False s1\<rparr>)"

definition exportAudio :: "string \<Rightarrow> ExportResponse Outcome \<Rightarrow> Exporter \<Rightarrow> Exporter" where
  "exportAudio API_BASE_URL outcome x =
     (if noJob (e_store x)
      then x\<lparr>e_store := setError (Some ''No job to export'') (e_store x)\<rparr>
      else exportAudio_settle API_BASE_URL outcome (exportAudio_begin x))"

subsection \<open>Preview\<close>

text \<open>\<^verbatim>\<open>useAudioPreview\<close>: the store and the hook's own preview url and busy flag.\<close>

record Previewer =
  p_store :: AppState
  previewUrl :: "string option"
  isGenerating :: bool

definition generatePreview_begin :: "Previewer \<Rightarrow> Previewer" where
  "generatePreview_begin x = x\<lparr>isGenerating := True, p_store := setError None (p_store x)\<rparr>"

text \<open>The request sent by \<^verbatim>\<open>generatePreview(startTime, duration)\<close>, if it sends one.\<close>

definition previewRequest :: "number \<Rightarrow> number \<Rightarrow> AppState \<Rightarrow> PreviewRequest option" where
  "previewRequest startTime duration s =
     (case jobId s of
        None \<Rightarrow> None
      | Some j \<Rightarrow>
          if j = [] then None
          else Some \<lparr> pr_job_id = j, pr_mix_config = getMixConfig (setError None s),
                      start_time = startTime, pr_duration = duration \<rparr>)"

text \<open>The second component is the value returned to the caller: the url, or null.\<close>

definition generatePreview_settle ::
  "string \<Rightarrow> PreviewResponse Outcome \<Rightarrow> Previewer \<Rightarrow> Previewer \<times> string option" where
  "generatePreview_settle API_BASE_URL outcome x =
     (case outcome of
        Resolved response \<Rightarrow>
          (let url = getAudioUrl API_BASE_URL (preview_url response)
           in (x\<lparr>previewUrl := Some url, isGenerating := False\<rparr>, Some url))
      | Rejected e \<Rightarrow>
          (x\<lparr>p_store := setError
                 (Some (firstTruthy [detail e, message e] ''Preview generation failed''))
                 (p_store x),
             isGenerating := False\<rparr>, None))"

definition generatePreview ::
  "string \<Rightarrow> PreviewResponse Outcome \<Rightarrow> Previewer \<Rightarrow> Previewer \<times> string option" where
  "generatePreview API_BASE_URL outcome x =
     (if noJob (p_store x)
      then (x\<lparr>p_store := setError (Some ''No job to preview'') (p_store x)\<rparr>, None)
      else generatePreview_settle API_BASE_URL outcome (generatePreview_begin x))"

text \<open>
  The player (AudioPlayer) renders nothing without a result and tracks; otherwise its
  \<^verbatim>\<open>handleGeneratePreview\<close> calls
  \<^verbatim>\<open>generatePreview(0, Math.min(60, result.duration_seconds))\<close>.
\<close>

definition handleGeneratePreview_request :: "AppState \<Rightarrow> PreviewRequest option" where
  "handleGeneratePreview_request s =
     (case result s of
        None \<Rightarrow> None
      | Some res \<Rightarrow>
          if tracks s = [] then None
          else previewRequest (Fin 0) (Math_min (Fin 60) (r_duration_seconds res)) s)"

definition sampleJobState :: "number \<Rightarrow> AppState" where
  "sampleJobState d =
     setResult (Some ((sampleResult [sampleTrack ''speaker_0'' Speaker, sampleTrack ''noise'' Noise])
                        \<lparr>r_duration_seconds := d\<rparr>))
       (setStatus Complete (setJobId (Some ''job'') initialState))"

subsection \<open>Job state and render-scoped state\<close>

text \<open>The part of the store that describes the job and its mix.\<close>

definition jobState ::
  "AppState \<Rightarrow> string option \<times> ProcessingStatus \<times> number \<times> AnalysisResult option \<times> TrackUIState list" where
  "jobState s = (jobId s, status s, progress s, result s, tracks s)"

text \<open>
  The second state is the first up to \<^verbatim>\<open>isExporting\<close>, \<^verbatim>\<open>exportUrl\<close> and \<^verbatim>\<open>error\<close>.
\<close>

definition renderScopedOnly :: "AppState \<Rightarrow> AppState \<Rightarrow> bool" where
  "renderScopedOnly s s' =
     (s'\<lparr>isExporting := isExporting s, exportUrl := exportUrl s, error := error s\<rparr> = s)"

section \<open>File upload (components/FileUpload.tsx)\<close>


text \<open>\<^verbatim>\<open>str.split(c)\<close> for a one-character separator: never empty.\<close>

fun split :: "char \<Rightarrow> string \<Rightarrow> string list" where
  "split c [] = [[]]"
| "split c (x # xs) =
     (if x = c then [] # split c xs
      else (case split c xs of [] \<Rightarrow> [[x]] | seg # segs \<Rightarrow> (x # seg) # segs))"











section \<open>The mixing engine\<close>

text \<open>
  Modelled from the spec: the mixing engine (the README lists it as
  \<^verbatim>\<open>backend/app/services/mixer.py\<close>) is not among the sources. The definitions of this
  section follow section 4.3 of the design, steps 1 to 7, in its words. A render request
  arrives as JSON, so its numbers are finite; samples and factors are rationals. The
  conversion from decibels to a linear factor, \<^verbatim>\<open>10^(db/20)\<close>, is a parameter.
\<close>

record RenderTrackConfig =
  rt_track_id :: string
  rt_muted :: bool
  rt_solo :: bool
  rt_volume :: rat
  rt_is_main :: bool

record RenderConfig =
  rc_tracks :: "RenderTrackConfig list"
  rc_main_speaker_boost_db :: rat
  rc_noise_reduction_level :: rat
  rc_normalize :: bool

record JobTrack =
  jt_id :: string
  jt_type :: TrackType
  jt_samples :: "rat list"

text \<open>
  Modelled from the spec: step 1, "tracks with no explicit TrackConfig get defaults
  (unmuted, volume 1.0, not main, not solo)".
\<close>

definition defaultTrackConfig :: "string \<Rightarrow> RenderTrackConfig" where
  "defaultTrackConfig i =
     \<lparr> rt_track_id = i, rt_muted = False, rt_solo = False, rt_volume = 1, rt_is_main = False \<rparr>"

text \<open>
  Modelled from the spec: step 1, the effective parameters of a track of the job are those
  of its TrackConfig entry (the first one naming it), or the defaults.
\<close>

definition resolveTrack :: "RenderTrackConfig list \<Rightarrow> JobTrack \<Rightarrow> RenderTrackConfig" where
  "resolveTrack cfgs t =
     (case find (\<lambda>c. rt_track_id c = jt_id t) cfgs of
        Some c \<Rightarrow> c
      | None \<Rightarrow> defaultTrackConfig (jt_id t))"

text \<open>Modelled from the spec: step 2, "if any track has solo = true".\<close>

definition anySolo :: "RenderTrackConfig list \<Rightarrow> JobTrack list \<Rightarrow> bool" where
  "anySolo cfgs ts = list_ex (\<lambda>t. rt_solo (resolveTrack cfgs t)) ts"

text \<open>
  Modelled from the spec: step 2, "every track with solo = false is treated as silent for
  this render, regardless of its own muted value. If no track is soloed, muted tracks are
  silent and all others pass through."
\<close>

definition silent :: "RenderTrackConfig list \<Rightarrow> JobTrack list \<Rightarrow> JobTrack \<Rightarrow> bool" where
  "silent cfgs ts t =
     (if anySolo cfgs ts then \<not> rt_solo (resolveTrack cfgs t)
      else rt_muted (resolveTrack cfgs t))"

text \<open>Modelled from the spec: "values outside are clamped, never rejected".\<close>

definition clamp :: "rat \<Rightarrow> rat \<Rightarrow> rat \<Rightarrow> rat" where
  "clamp lo hi x = max lo (min hi x)"

text \<open>
  Modelled from the spec: step 4 and section 3, the main track is the first one marked main
  in the order the caller gave.
\<close>

definition mainTrackId :: "RenderTrackConfig list \<Rightarrow> string option" where
  "mainTrackId cfgs = map_option rt_track_id (find rt_is_main cfgs)"

text \<open>
  Modelled from the spec: steps 3 to 5, the factor applied to a track's samples: its
  volume clamped to [0,2], times the boost for the main track, times
  \<^verbatim>\<open>1 - noise_reduction_level\<close> for a track of type noise or other.
\<close>

definition trackGain :: "(rat \<Rightarrow> rat) \<Rightarrow> RenderConfig \<Rightarrow> JobTrack \<Rightarrow> rat" where
  "trackGain dbToLinear cfg t =
     clamp 0 2 (rt_volume (resolveTrack (rc_tracks cfg) t))
     * (if mainTrackId (rc_tracks cfg) = Some (jt_id t)
        then dbToLinear (clamp 0 10 (rc_main_speaker_boost_db cfg)) else 1)
     * (if jt_type t = Noise \<or> jt_type t = Other
        then 1 - clamp 0 1 (rc_noise_reduction_level cfg) else 1)"

text \<open>Modelled from the spec: step 6, sample-wise sum of two buffers.\<close>

fun addBuffers :: "rat list \<Rightarrow> rat list \<Rightarrow> rat list" where
  "addBuffers [] ys = ys"
| "addBuffers xs [] = xs"
| "addBuffers (x # xs) (y # ys) = (x + y) # addBuffers xs ys"

text \<open>
  Modelled from the spec: step 6, "all remaining tracks' scaled sample buffers are summed
  sample-wise".
\<close>

definition mixdown :: "(rat \<Rightarrow> rat) \<Rightarrow> RenderConfig \<Rightarrow> JobTrack list \<Rightarrow> rat list" where
  "mixdown dbToLinear cfg ts =
     foldr addBuffers
       (map (\<lambda>t. map (\<lambda>x. trackGain dbToLinear cfg t * x) (jt_samples t))
            (filter (\<lambda>t. \<not> silent (rc_tracks cfg) ts t) ts))
       []"

text \<open>Modelled from the spec: step 7, the peak absolute amplitude of a buffer.\<close>

definition peak :: "rat list \<Rightarrow> rat" where
  "peak xs = foldr (\<lambda>x m. max \<bar>x\<bar> m) xs 0"

text \<open>
  Modelled from the spec: step 7, with normalization the buffer is scaled by one factor so
  that its peak is 0.98 (an all-zero buffer is left as it is); without, samples beyond full
  scale are hard-clipped.
\<close>

definition finishBuffer :: "bool \<Rightarrow> rat list \<Rightarrow> rat list" where
  "finishBuffer normalizing xs =
     (if normalizing
      then (if peak xs = 0 then xs else map (\<lambda>x. x * (98 / 100) / peak xs) xs)
      else map (\<lambda>x. max (- 1) (min 1 x)) xs)"

text \<open>Modelled from the spec: the render of a job's tracks under a mix configuration.\<close>

definition render :: "(rat \<Rightarrow> rat) \<Rightarrow> RenderConfig \<Rightarrow> JobTrack list \<Rightarrow> rat list" where
  "render dbToLinear cfg ts = finishBuffer (rc_normalize cfg) (mixdown dbToLinear cfg ts)"

text \<open>The entries of a configuration with their muted flags replaced by the given ones.\<close>

definition withMuted :: "bool list \<Rightarrow> RenderTrackConfig list \<Rightarrow> RenderTrackConfig list" where
  "withMuted ms cfgs = map (\<lambda>(c, m). c\<lparr>rt_muted := m\<rparr>) (zip cfgs ms)"

definition sampleRenderConfig :: "bool \<Rightarrow> bool \<Rightarrow> bool \<Rightarrow> RenderConfig" where
  "sampleRenderConfig solo0 muted0 muted1 =
     \<lparr> rc_tracks =
         [\<lparr> rt_track_id = ''speaker_0'', rt_muted = muted0, rt_solo = solo0, rt_volume = 1,
             rt_is_main = True \<rparr>,
          \<lparr> rt_track_id = ''noise'', rt_muted = muted1, rt_solo = False, rt_volume = 1 / 2,
             rt_is_main = False \<rparr>],
       rc_main_speaker_boost_db = 0, rc_noise_reduction_level = 0, rc_normalize = False \<rparr>"

definition sampleJobTracks :: "JobTrack list" where
  "sampleJobTracks =
     [\<lparr> jt_id = ''speaker_0'', jt_type = Speaker, jt_samples = [1 / 2, - 1 / 4] \<rparr>,
      \<lparr> jt_id = ''noise'', jt_type = Noise, jt_samples = [1 / 4, 1 / 4] \<rparr>]"

section \<open>Properties of the store\<close>

subsection \<open>At most one main track\<close>

lemma filter_enum_Suc:
  "filter isMain (map (\<lambda>(index, track). defaultUIState index track) (enumerate (Suc n) xs)) = []"
  by (induction xs arbitrary: n) (simp_all add: defaultUIState_def)

lemma setResult_mainCount: "mainCount (setResult r s) \<le> 1"
proof (cases r)
  case None
  then show ?thesis by (simp add: setResult_def mainCount_def)
next
  case (Some res)
  then show ?thesis
    by (cases "r_tracks res") (simp_all add: setResult_def mainCount_def filter_enum_Suc)
qed

lemma filter_id_distinct:
  "distinct (map f xs) \<Longrightarrow> length (filter (\<lambda>x. f x = a) xs) \<le> 1"
  by (induction xs) (auto simp: filter_empty_conv image_iff)

lemma ids_applyOp: "map t_id (tracks (applyOp op s)) = map t_id (tracks s)"
  by (cases op) (simp_all add: toggleTrackMute_def toggleTrackSolo_def setTrackVolume_def setMainSpeaker_def comp_def if_distrib cong: if_cong)

lemma ids_setResult: "map t_id (tracks (setResult (Some res) s)) = map t_id (r_tracks res)"
proof -
  have "map t_id (map (\<lambda>(index, track). defaultUIState index track) (enumerate 0 (r_tracks res)))
        = map (t_id \<circ> snd) (enumerate 0 (r_tracks res))"
    by (simp add: case_prod_unfold defaultUIState_def comp_def)
  also have "\<dots> = map t_id (r_tracks res)"
    by (simp only: map_map [symmetric] map_snd_enumerate)
  finally show ?thesis by (simp add: setResult_def)
qed

lemma filter_isMain_map_keep:
  "(\<And>x. isMain (g x) = isMain x) \<Longrightarrow> length (filter isMain (map g xs)) = length (filter isMain xs)"
proof -
  assume "\<And>x. isMain (g x) = isMain x"
  then have "isMain \<circ> g = isMain" by (simp add: fun_eq_iff)
  then show ?thesis by simp
qed

lemma mainCount_applyOp:
  assumes d: "distinct (map t_id (tracks s))" and m: "mainCount s \<le> 1"
  shows "mainCount (applyOp op s) \<le> 1"
proof (cases op)
  case (SetMainSpeaker i)
  have "filter isMain (map (\<lambda>track. track\<lparr>isMain := (t_id track = i)\<rparr>) (tracks s))
        = map (\<lambda>track. track\<lparr>isMain := (t_id track = i)\<rparr>) (filter (\<lambda>x. t_id x = i) (tracks s))"
    by (simp add: filter_map comp_def)
  then show ?thesis using filter_id_distinct[OF d, of i]
    by (simp add: SetMainSpeaker setMainSpeaker_def mainCount_def)
next
  case (ToggleTrackMute i)
  have "mainCount (applyOp op s) = mainCount s"
    unfolding ToggleTrackMute mainCount_def applyOp.simps toggleTrackMute_def
    by (simp del: length_filter_map add: filter_isMain_map_keep)
  then show ?thesis using m by simp
next
  case (ToggleTrackSolo i)
  have "mainCount (applyOp op s) = mainCount s"
    unfolding ToggleTrackSolo mainCount_def applyOp.simps toggleTrackSolo_def
    by (simp del: length_filter_map add: filter_isMain_map_keep)
  then show ?thesis using m by simp
next
  case (SetTrackVolume i v)
  have "mainCount (applyOp op s) = mainCount s"
    unfolding SetTrackVolume mainCount_def applyOp.simps setTrackVolume_def
    by (simp del: length_filter_map add: filter_isMain_map_keep)
  then show ?thesis using m by simp
qed

lemma mainCount_runOps:
  "distinct (map t_id (tracks s)) \<Longrightarrow> mainCount s \<le> 1 \<Longrightarrow> mainCount (runOps ops s) \<le> 1"
proof (induction ops arbitrary: s)
  case Nil
  then show ?case by simp
next
  case (Cons op ops)
  have "distinct (map t_id (tracks (applyOp op s)))"
    using Cons.prems(1) by (simp only: ids_applyOp)
  moreover have "mainCount (applyOp op s) \<le> 1"
    using Cons.prems by (rule mainCount_applyOp)
  ultimately show ?case using Cons.IH by simp
qed

lemma configMainCount_eq: "configMainCount (getMixConfig s) = mainCount s"
proof -
  have "is_main \<circ> toTrackConfig = isMain"
    by (rule ext) (simp add: toTrackConfig_def)
  then show ?thesis
    by (simp add: configMainCount_def getMixConfig_def mainCount_def filter_map)
qed

text \<open>
  C2 (as amended). When the track ids of the analysis result are pairwise distinct, every
  store state reached from \<^verbatim>\<open>setResult\<close> by the track operations (toggleTrackMute,
  toggleTrackSolo, setTrackVolume, setMainSpeaker) has at most one track with
  \<^verbatim>\<open>isMain = true\<close>, and the mix configuration read from it has at most one entry with
  \<^verbatim>\<open>is_main = true\<close>.
\<close>

theorem at_most_one_main_distinct_ids:
  assumes "case r of None \<Rightarrow> True | Some res \<Rightarrow> distinct (map t_id (r_tracks res))"
  shows "mainCount (runOps ops (setResult r s)) \<le> 1
         \<and> configMainCount (getMixConfig (runOps ops (setResult r s))) \<le> 1"
proof -
  have d: "distinct (map t_id (tracks (setResult r s)))"
  proof (cases r)
    case None
    then show ?thesis by (simp add: setResult_def)
  next
    case (Some res)
    with assms show ?thesis by (simp only: ids_setResult) simp
  qed
  have "mainCount (runOps ops (setResult r s)) \<le> 1"
    using d setResult_mainCount by (rule mainCount_runOps)
  then show ?thesis by (simp only: configMainCount_eq) 
qed

theorem at_most_one_main_distinct_ids_witness:
  "distinct (map t_id [sampleTrack ''speaker_0'' Speaker, sampleTrack ''noise'' Noise])
   \<and> mainCount (runOps [SetMainSpeaker ''noise'', ToggleTrackMute ''speaker_0'']
        (setResult (Some (sampleResult [sampleTrack ''speaker_0'' Speaker, sampleTrack ''noise'' Noise]))
           initialState)) \<le> 1"
  using at_most_one_main_distinct_ids
    [of "Some (sampleResult [sampleTrack ''speaker_0'' Speaker, sampleTrack ''noise'' Noise])"
        "[SetMainSpeaker ''noise'', ToggleTrackMute ''speaker_0'']" initialState]
  by (simp add: sampleResult_def sampleTrack_def)

text \<open>
  Without distinct ids the bound fails: \<^verbatim>\<open>setMainSpeaker\<close> marks every track whose id
  equals its argument, so two tracks sharing an id both become main.
\<close>

theorem at_most_one_main_counterexample:
  "\<not> mainCount (runOps [SetMainSpeaker ''speaker_0'']
        (setResult (Some (sampleResult [sampleTrack ''speaker_0'' Speaker, sampleTrack ''speaker_0'' Speaker]))
           initialState)) \<le> 1"
  by (simp add: mainCount_def setResult_def sampleResult_def sampleTrack_def defaultUIState_def
        setMainSpeaker_def)

subsection \<open>Defaults given by setResult\<close>

lemma setResult_nth:
  assumes "i < length (r_tracks res)"
  shows "tracks (setResult (Some res) s) ! i = defaultUIState i (r_tracks res ! i)"
  using assms by (simp add: setResult_def nth_enumerate_eq)

text \<open>
  C4 (as amended). \<^verbatim>\<open>setResult\<close> keeps every track of the result, in order, and gives
  each of them \<^verbatim>\<open>muted = false\<close>, \<^verbatim>\<open>solo = false\<close> and volume 1.0. The track at
  index 0 is made main when its type is speaker; a track that is not a speaker, and a
  track that comes after a speaker track, is not main.
\<close>

theorem setResult_track_defaults:
  assumes "i < length (r_tracks res)"
  shows "length (tracks (setResult (Some res) s)) = length (r_tracks res)
    \<and> t_id (tracks (setResult (Some res) s) ! i) = t_id (r_tracks res ! i)
    \<and> t_type (tracks (setResult (Some res) s) ! i) = t_type (r_tracks res ! i)
    \<and> muted (tracks (setResult (Some res) s) ! i) = False
    \<and> solo (tracks (setResult (Some res) s) ! i) = False
    \<and> volume (tracks (setResult (Some res) s) ! i) = Fin 1
    \<and> (i = 0 \<and> t_type (r_tracks res ! i) = Speaker \<longrightarrow> isMain (tracks (setResult (Some res) s) ! i))
    \<and> (t_type (r_tracks res ! i) \<noteq> Speaker \<longrightarrow> \<not> isMain (tracks (setResult (Some res) s) ! i))
    \<and> ((\<exists>j<i. t_type (r_tracks res ! j) = Speaker) \<longrightarrow> \<not> isMain (tracks (setResult (Some res) s) ! i))"
proof -
  have len: "length (tracks (setResult (Some res) s)) = length (r_tracks res)"
    by (simp add: setResult_def)
  show ?thesis
    unfolding setResult_nth [OF assms] len by (auto simp: defaultUIState_def)
qed

theorem setResult_track_defaults_witness:
  "(0::nat) < length (r_tracks (sampleResult [sampleTrack ''speaker_0'' Speaker, sampleTrack ''noise'' Noise]))
   \<and> volume (tracks (setResult (Some (sampleResult [sampleTrack ''speaker_0'' Speaker, sampleTrack ''noise'' Noise])) initialState) ! 0) = Fin 1
   \<and> isMain (tracks (setResult (Some (sampleResult [sampleTrack ''speaker_0'' Speaker, sampleTrack ''noise'' Noise])) initialState) ! 0)"
  using setResult_track_defaults
    [of 0 "sampleResult [sampleTrack ''speaker_0'' Speaker, sampleTrack ''noise'' Noise]" initialState]
  by (simp add: sampleResult_def sampleTrack_def)

text \<open>
  A speaker track at index 0 is main after \<^verbatim>\<open>setResult\<close>, so "not main for every track,
  including the first speaker track" does not hold.
\<close>

theorem setResult_not_main_counterexample:
  "\<not> (isMain (tracks (setResult (Some (sampleResult [sampleTrack ''speaker_0'' Speaker, sampleTrack ''noise'' Noise]))
          initialState) ! 0) = False)"
  by (simp add: setResult_def sampleResult_def sampleTrack_def defaultUIState_def)

subsection \<open>Main speaker boost and noise reduction level\<close>

text \<open>
  C5 (as amended). \<^verbatim>\<open>setMainSpeakerBoostDb\<close> and \<^verbatim>\<open>setNoiseReductionLevel\<close> store
  their argument as it is, each leaves the other value alone, and \<^verbatim>\<open>getMixConfig\<close>
  carries the stored values unchanged; so the values in the mix configuration are within
  [0,10] and [0,1] exactly when the values passed to the setters are.
\<close>

theorem boost_and_noise_setters_store_argument:
  "main_speaker_boost_db (getMixConfig (setMainSpeakerBoostDb db s)) = db
   \<and> noise_reduction_level (getMixConfig (setNoiseReductionLevel level s)) = level
   \<and> noise_reduction_level (getMixConfig (setMainSpeakerBoostDb db s)) = noiseReductionLevel s
   \<and> main_speaker_boost_db (getMixConfig (setNoiseReductionLevel level s)) = mainSpeakerBoostDb s
   \<and> (num_le (Fin 0) (main_speaker_boost_db (getMixConfig (setMainSpeakerBoostDb db s)))
        \<and> num_le (main_speaker_boost_db (getMixConfig (setMainSpeakerBoostDb db s))) (Fin 10))
       = (num_le (Fin 0) db \<and> num_le db (Fin 10))
   \<and> (num_le (Fin 0) (noise_reduction_level (getMixConfig (setNoiseReductionLevel level s)))
        \<and> num_le (noise_reduction_level (getMixConfig (setNoiseReductionLevel level s))) (Fin 1))
       = (num_le (Fin 0) level \<and> num_le level (Fin 1))"
  by (simp add: getMixConfig_def setMainSpeakerBoostDb_def setNoiseReductionLevel_def)

text \<open>
  The setters do not clamp: a boost of 15 and a noise reduction level of 2 reach the mix
  configuration as they are.
\<close>

theorem boost_not_clamped_counterexample:
  "\<not> num_le (main_speaker_boost_db (getMixConfig (setMainSpeakerBoostDb (Fin 15) initialState))) (Fin 10)
   \<and> \<not> num_le (noise_reduction_level (getMixConfig (setNoiseReductionLevel (Fin 2) initialState))) (Fin 1)"
  by (simp add: getMixConfig_def setMainSpeakerBoostDb_def setNoiseReductionLevel_def)

subsection \<open>Track volume\<close>

lemma clamp_cases:
  "(num_less v (Fin 0) \<longrightarrow> Math_max (Fin 0) (Math_min (Fin 2) v) = Fin 0)
   \<and> (num_less (Fin 2) v \<longrightarrow> Math_max (Fin 0) (Math_min (Fin 2) v) = Fin 2)
   \<and> (num_le (Fin 0) v \<and> num_le v (Fin 2) \<longrightarrow> Math_max (Fin 0) (Math_min (Fin 2) v) = v)
   \<and> (v \<noteq> NaN \<longrightarrow> num_le (Fin 0) (Math_max (Fin 0) (Math_min (Fin 2) v))
                    \<and> num_le (Math_max (Fin 0) (Math_min (Fin 2) v)) (Fin 2))"
  by (cases v) (auto simp: min_def max_def)

lemma applyOp_keeps_volume:
  assumes "i < length (tracks s)" and "t_id (tracks s ! i) = trackId"
    and "\<not> setsVolumeOf trackId op"
  shows "length (tracks (applyOp op s)) = length (tracks s)
         \<and> t_id (tracks (applyOp op s) ! i) = trackId
         \<and> volume (tracks (applyOp op s) ! i) = volume (tracks s ! i)"
  using assms
  by (cases op)
     (simp_all add: toggleTrackMute_def toggleTrackSolo_def setTrackVolume_def setMainSpeaker_def)

lemma runOps_keeps_volume:
  assumes "i < length (tracks s)" and "t_id (tracks s ! i) = trackId"
    and "\<not> list_ex (setsVolumeOf trackId) ops"
  shows "length (tracks (runOps ops s)) = length (tracks s)
         \<and> t_id (tracks (runOps ops s) ! i) = trackId
         \<and> volume (tracks (runOps ops s) ! i) = volume (tracks s ! i)"
  using assms
proof (induction ops arbitrary: s)
  case Nil
  then show ?case by simp
next
  case (Cons op ops)
  have step: "length (tracks (applyOp op s)) = length (tracks s)
         \<and> t_id (tracks (applyOp op s) ! i) = trackId
         \<and> volume (tracks (applyOp op s) ! i) = volume (tracks s ! i)"
    using Cons.prems by (intro applyOp_keeps_volume) simp_all
  have "length (tracks (runOps ops (applyOp op s))) = length (tracks (applyOp op s))
         \<and> t_id (tracks (runOps ops (applyOp op s)) ! i) = trackId
         \<and> volume (tracks (runOps ops (applyOp op s)) ! i) = volume (tracks (applyOp op s) ! i)"
    using Cons.prems step by (intro Cons.IH) simp_all
  with step show ?case by simp
qed

lemma getMixConfig_nth:
  "i < length (tracks s) \<Longrightarrow>
     track_id (cfg_tracks (getMixConfig s) ! i) = t_id (tracks s ! i)
     \<and> cfg_volume (cfg_tracks (getMixConfig s) ! i) = volume (tracks s ! i)"
  by (simp add: getMixConfig_def toTrackConfig_def)

text \<open>
  C3. For every track id and every volume \<^verbatim>\<open>v\<close>, \<^verbatim>\<open>setTrackVolume\<close> stores
  \<^verbatim>\<open>Math.max(0, Math.min(2, v))\<close> for each track with that id; the value stays there
  through later track operations that do not set this track's volume again, and
  \<^verbatim>\<open>getMixConfig\<close> carries it in that track's entry. The stored value is 0 for
  \<^verbatim>\<open>v < 0\<close>, 2 for \<^verbatim>\<open>v > 2\<close>, and \<^verbatim>\<open>v\<close> itself inside [0,2]; no input is rejected
  (the track list keeps its length). A NaN input is stored as NaN.
\<close>

theorem setTrackVolume_clamps:
  assumes "i < length (tracks s)" and "t_id (tracks s ! i) = trackId"
    and "\<not> list_ex (setsVolumeOf trackId) ops"
  shows "length (tracks (runOps ops (setTrackVolume trackId v s))) = length (tracks s)
    \<and> volume (tracks (setTrackVolume trackId v s) ! i) = Math_max (Fin 0) (Math_min (Fin 2) v)
    \<and> volume (tracks (runOps ops (setTrackVolume trackId v s)) ! i)
        = Math_max (Fin 0) (Math_min (Fin 2) v)
    \<and> track_id (cfg_tracks (getMixConfig (runOps ops (setTrackVolume trackId v s))) ! i) = trackId
    \<and> cfg_volume (cfg_tracks (getMixConfig (runOps ops (setTrackVolume trackId v s))) ! i)
        = Math_max (Fin 0) (Math_min (Fin 2) v)
    \<and> (num_less v (Fin 0) \<longrightarrow> Math_max (Fin 0) (Math_min (Fin 2) v) = Fin 0)
    \<and> (num_less (Fin 2) v \<longrightarrow> Math_max (Fin 0) (Math_min (Fin 2) v) = Fin 2)
    \<and> (num_le (Fin 0) v \<and> num_le v (Fin 2) \<longrightarrow> Math_max (Fin 0) (Math_min (Fin 2) v) = v)
    \<and> (v \<noteq> NaN \<longrightarrow> num_le (Fin 0) (Math_max (Fin 0) (Math_min (Fin 2) v))
                    \<and> num_le (Math_max (Fin 0) (Math_min (Fin 2) v)) (Fin 2))"
proof -
  let ?s1 = "setTrackVolume trackId v s"
  let ?c = "Math_max (Fin 0) (Math_min (Fin 2) v)"
  have len1: "length (tracks ?s1) = length (tracks s)"
    by (simp add: setTrackVolume_def)
  have id1: "t_id (tracks ?s1 ! i) = trackId"
    using assms(1,2) by (simp add: setTrackVolume_def)
  have vol1: "volume (tracks ?s1 ! i) = ?c"
    using assms(1,2) by (simp add: setTrackVolume_def)
  have i1: "i < length (tracks ?s1)" using assms(1) len1 by simp
  note run = runOps_keeps_volume [OF i1 id1 assms(3)]
  have i2: "i < length (tracks (runOps ops ?s1))" using run i1 by simp
  note cfg = getMixConfig_nth [OF i2]
  show ?thesis
    using len1 vol1 run cfg clamp_cases [of v] by simp
qed

theorem setTrackVolume_clamps_witness:
  "(0::nat) < length (tracks (setResult (Some (sampleResult [sampleTrack ''speaker_0'' Speaker, sampleTrack ''noise'' Noise])) initialState))
   \<and> cfg_volume (cfg_tracks (getMixConfig (runOps [ToggleTrackMute ''speaker_0'', SetTrackVolume ''noise'' (Fin (1/2))]
        (setTrackVolume ''speaker_0'' (Fin 5)
          (setResult (Some (sampleResult [sampleTrack ''speaker_0'' Speaker, sampleTrack ''noise'' Noise])) initialState)))) ! 0)
      = Fin 2"
  using setTrackVolume_clamps
    [of 0 "setResult (Some (sampleResult [sampleTrack ''speaker_0'' Speaker, sampleTrack ''noise'' Noise])) initialState"
        "''speaker_0''" "[ToggleTrackMute ''speaker_0'', SetTrackVolume ''noise'' (Fin (1/2))]" "Fin 5"]
  by (simp add: setResult_def sampleResult_def sampleTrack_def defaultUIState_def)

subsection \<open>Reset\<close>

text \<open>
  C10. From every store state, \<^verbatim>\<open>reset()\<close> gives exactly the initial state: no uploaded
  file, no job id, status pending, progress 0, no tracks, main speaker boost 3.0, noise
  reduction 0, format wav, normalize on, no error. Hence reset is idempotent, and the mix
  configuration read after it is that of the initial state whatever was adjusted before.
\<close>

theorem reset_restores_initialState:
  "reset s = initialState
   \<and> uploadedFile (reset s) = None \<and> jobId (reset s) = None \<and> status (reset s) = Pending
   \<and> progress (reset s) = Fin 0 \<and> tracks (reset s) = []
   \<and> mainSpeakerBoostDb (reset s) = Fin 3 \<and> noiseReductionLevel (reset s) = Fin 0
   \<and> outputFormat (reset s) = Wav \<and> normalize (reset s) = True \<and> error (reset s) = None
   \<and> reset (reset s) = reset s
   \<and> getMixConfig (reset s) = getMixConfig initialState"
proof -
  have eq: "reset s = initialState"
    by (cases s) (simp add: reset_def initialState_def)
  have eq2: "reset initialState = initialState"
    by (simp add: reset_def initialState_def)
  show ?thesis
    unfolding eq eq2 by (simp add: initialState_def)
qed

section \<open>Properties of the hooks\<close>

subsection \<open>Preview window\<close>

lemma Math_min_60:
  assumes "num_less (Fin 0) d"
  shows "num_less (Fin 0) (Math_min (Fin 60) d) \<and> num_le (Math_min (Fin 60) d) (Fin 60)
         \<and> num_le (Math_min (Fin 60) d) d \<and> \<not> num_le d (Fin 0)"
  using assms by (cases d) (auto simp: min_def)

text \<open>
  C7. Every preview request issued by the player asks for start time 0 and duration
  \<^verbatim>\<open>Math.min(60, result.duration_seconds)\<close>. For a job of positive duration the window
  starts at 0, is not empty, is at most 60 seconds long, ends within the job's duration,
  and its start is before the end of the job.
\<close>

theorem preview_window_within_job:
  assumes "handleGeneratePreview_request s = Some rq" and "result s = Some res"
  shows "start_time rq = Fin 0
    \<and> pr_duration rq = Math_min (Fin 60) (r_duration_seconds res)
    \<and> jobId s = Some (pr_job_id rq) \<and> pr_job_id rq \<noteq> []
    \<and> (num_less (Fin 0) (r_duration_seconds res) \<longrightarrow>
          num_le (Fin 0) (start_time rq)
        \<and> num_less (Fin 0) (pr_duration rq)
        \<and> num_le (pr_duration rq) (r_duration_seconds res)
        \<and> num_le (pr_duration rq) (Fin 60)
        \<and> \<not> num_le (r_duration_seconds res) (start_time rq))"
proof -
  from assms have rq: "previewRequest (Fin 0) (Math_min (Fin 60) (r_duration_seconds res)) s = Some rq"
    by (simp add: handleGeneratePreview_request_def split: if_splits)
  then obtain j where j: "jobId s = Some j" "j \<noteq> []"
    and eq: "rq = \<lparr> pr_job_id = j, pr_mix_config = getMixConfig (setError None s),
                    start_time = Fin 0, pr_duration = Math_min (Fin 60) (r_duration_seconds res) \<rparr>"
    by (auto simp: previewRequest_def split: option.splits if_splits)
  show ?thesis
    using j Math_min_60 [of "r_duration_seconds res"] by (simp add: eq)
qed

theorem preview_window_within_job_witness:
  "handleGeneratePreview_request (sampleJobState (Fin 10)) =
     Some \<lparr> pr_job_id = ''job'',
            pr_mix_config = getMixConfig (setError None (sampleJobState (Fin 10))),
            start_time = Fin 0, pr_duration = Fin 10 \<rparr>
   \<and> num_less (Fin 0) (Fin 10)
   \<and> num_le (Fin 10) (Fin 60)"
  using preview_window_within_job
    [of "sampleJobState (Fin 10)"
        "\<lparr> pr_job_id = ''job'',
            pr_mix_config = getMixConfig (setError None (sampleJobState (Fin 10))),
            start_time = Fin 0, pr_duration = Fin 10 \<rparr>"
        "(sampleResult [sampleTrack ''speaker_0'' Speaker, sampleTrack ''noise'' Noise])
                        \<lparr>r_duration_seconds := Fin 10\<rparr>"]
  by (simp add: handleGeneratePreview_request_def previewRequest_def sampleJobState_def
        setResult_def setStatus_def setJobId_def initialState_def sampleResult_def)

subsection \<open>Export and preview leave the job alone\<close>

lemma renderScopedOnly_jobState: "renderScopedOnly s s' \<Longrightarrow> jobState s' = jobState s"
  by (cases s; cases s') (simp add: renderScopedOnly_def jobState_def)

lemma export_begin_scoped: "renderScopedOnly (e_store x) (e_store (exportAudio_begin x))"
  by (simp add: renderScopedOnly_def exportAudio_begin_def setError_def setIsExporting_def)

lemma export_settle_scoped: "renderScopedOnly (e_store x) (e_store (exportAudio_settle b outcome x))"
  by (cases outcome)
     (simp_all add: renderScopedOnly_def exportAudio_settle_def setError_def setIsExporting_def
        setExportUrl_def)

lemma export_scoped: "renderScopedOnly (e_store x) (e_store (exportAudio b outcome x))"
  by (cases outcome)
     (simp_all add: renderScopedOnly_def exportAudio_def exportAudio_settle_def exportAudio_begin_def
        setError_def setIsExporting_def setExportUrl_def)

lemma preview_begin_scoped: "renderScopedOnly (p_store y) (p_store (generatePreview_begin y))"
  by (simp add: renderScopedOnly_def generatePreview_begin_def setError_def)

lemma preview_settle_scoped:
  "renderScopedOnly (p_store y) (p_store (fst (generatePreview_settle b outcome y)))"
  by (cases outcome)
     (simp_all add: renderScopedOnly_def generatePreview_settle_def setError_def Let_def)

lemma preview_scoped:
  "renderScopedOnly (p_store y) (p_store (fst (generatePreview b outcome y)))"
  by (cases outcome)
     (simp_all add: renderScopedOnly_def generatePreview_def generatePreview_settle_def
        generatePreview_begin_def setError_def Let_def)

text \<open>
  C8. \<^verbatim>\<open>exportAudio\<close> and \<^verbatim>\<open>generatePreview\<close> leave the job state alone, whether the
  request succeeds or fails: job id, status, progress, result and tracks of the store are
  the same after the call, and also after each of its two parts (before and after the
  awaited request), so whatever runs in between sees them unchanged. In the store only
  \<^verbatim>\<open>isExporting\<close>, \<^verbatim>\<open>exportUrl\<close> and \<^verbatim>\<open>error\<close> can differ; a preview changes
  neither \<^verbatim>\<open>exportUrl\<close> nor \<^verbatim>\<open>isExporting\<close>.
\<close>

theorem render_calls_keep_job_state:
  "jobState (e_store (exportAudio b outcome x)) = jobState (e_store x)
   \<and> jobState (e_store (exportAudio_begin x)) = jobState (e_store x)
   \<and> jobState (e_store (exportAudio_settle b outcome x)) = jobState (e_store x)
   \<and> renderScopedOnly (e_store x) (e_store (exportAudio b outcome x))
   \<and> renderScopedOnly (e_store x) (e_store (exportAudio_begin x))
   \<and> renderScopedOnly (e_store x) (e_store (exportAudio_settle b outcome x))
   \<and> jobState (p_store (fst (generatePreview b outcome' y))) = jobState (p_store y)
   \<and> jobState (p_store (generatePreview_begin y)) = jobState (p_store y)
   \<and> jobState (p_store (fst (generatePreview_settle b outcome' y))) = jobState (p_store y)
   \<and> renderScopedOnly (p_store y) (p_store (fst (generatePreview b outcome' y)))
   \<and> renderScopedOnly (p_store y) (p_store (generatePreview_begin y))
   \<and> renderScopedOnly (p_store y) (p_store (fst (generatePreview_settle b outcome' y)))
   \<and> exportUrl (p_store (fst (generatePreview b outcome' y))) = exportUrl (p_store y)
   \<and> isExporting (p_store (fst (generatePreview b outcome' y))) = isExporting (p_store y)"
proof -
  have "exportUrl (p_store (fst (generatePreview b outcome' y))) = exportUrl (p_store y)
   \<and> isExporting (p_store (fst (generatePreview b outcome' y))) = isExporting (p_store y)"
    by (cases outcome')
       (simp_all add: generatePreview_def generatePreview_settle_def
          generatePreview_begin_def setError_def Let_def)
  then show ?thesis
    by (simp add: renderScopedOnly_jobState export_begin_scoped export_settle_scoped export_scoped
          preview_begin_scoped preview_settle_scoped preview_scoped)
qed

theorem render_calls_keep_job_state_witness:
  "jobState (e_store (exportAudio ''http://localhost:8000''
       (Rejected \<lparr>detail = None, message = Some ''Network Error''\<rparr>)
       \<lparr>e_store = sampleJobState (Fin 10), e_isExporting = False\<rparr>))
     = jobState (sampleJobState (Fin 10))
   \<and> error (e_store (exportAudio ''http://localhost:8000''
       (Rejected \<lparr>detail = None, message = Some ''Network Error''\<rparr>)
       \<lparr>e_store = sampleJobState (Fin 10), e_isExporting = False\<rparr>)) = Some ''Network Error''"
  using render_calls_keep_job_state
    [of "''http://localhost:8000''" "Rejected \<lparr>detail = None, message = Some ''Network Error''\<rparr>"
        "\<lparr>e_store = sampleJobState (Fin 10), e_isExporting = False\<rparr>"]
  by (simp add: exportAudio_def exportAudio_settle_def exportAudio_begin_def noJob_def
        sampleJobState_def setResult_def setStatus_def setJobId_def setError_def
        setIsExporting_def)

subsection \<open>Polling\<close>

lemma poll_handle_Resolved_fields:
  "status (store (poll_handle (Resolved st) p)) = js_status st
   \<and> progress (store (poll_handle (Resolved st) p)) = js_progress st
   \<and> currentStep (store (poll_handle (Resolved st) p)) = current_step st"
  by (cases "js_result st")
     (simp_all add: poll_handle_def Let_def stopPolling_def setResult_def setError_def
        setCurrentStep_def setProgress_def setStatus_def)

lemma poll_handle_Rejected_fields:
  "status (store (poll_handle (Rejected e) p)) = status (store p)
   \<and> progress (store (poll_handle (Rejected e) p)) = progress (store p)"
  by (simp add: poll_handle_def stopPolling_def setError_def)

lemma poll_handle_polling: "polling (poll_handle outcome p) = (polling p \<and> \<not> stops outcome)"
  by (cases outcome) (auto simp: poll_handle_def Let_def stopPolling_def)

lemma poll_handle_counters:
  "sent (poll_handle outcome p) = sent p \<and> inFlight (poll_handle outcome p) = inFlight p"
  by (cases outcome) (auto simp: poll_handle_def Let_def stopPolling_def)

lemma step_stopped:
  assumes "\<not> polling p"
  shows "\<not> polling (step ev p) \<and> sent (step ev p) = sent p \<and> inFlight (step ev p) \<le> inFlight p"
  using assms by (cases ev) (simp_all add: poll_handle_polling poll_handle_counters)

lemma run_stopped:
  assumes "\<not> polling p"
  shows "\<not> polling (run evs p) \<and> sent (run evs p) = sent p \<and> inFlight (run evs p) \<le> inFlight p"
  using assms
proof (induction evs arbitrary: p)
  case Nil
  then show ?case by simp
next
  case (Cons ev evs)
  note s = step_stopped [OF Cons.prems, of ev]
  from s have "\<not> polling (step ev p)" by simp
  from Cons.IH [OF this] s show ?case by simp
qed

lemma step_idle: "\<not> polling p \<Longrightarrow> inFlight p = 0 \<Longrightarrow> step ev p = p"
  by (cases ev) simp_all

lemma run_idle: "\<not> polling p \<Longrightarrow> inFlight p = 0 \<Longrightarrow> run evs p = p"
  by (induction evs) (simp_all add: step_idle)

lemma progressTrace_subset: "set (progressTrace evs p) \<subseteq> set (reportedProgress evs)"
proof (induction evs arbitrary: p)
  case Nil
  then show ?case by simp
next
  case (Cons ev evs)
  show ?case
  proof (cases ev)
    case Fire
    then show ?thesis using Cons.IH [of "step Fire p"] by simp
  next
    case (Arrive outcome)
    show ?thesis
    proof (cases outcome)
      case (Rejected e)
      then show ?thesis
        using Arrive Cons.IH [of "step (Arrive (Rejected e)) p"] by simp
    next
      case (Resolved st)
      have "progress (store (poll_handle (Resolved st) (p\<lparr>inFlight := inFlight p - 1\<rparr>)))
            = js_progress st"
        by (simp add: poll_handle_Resolved_fields)
      then show ?thesis
        using Arrive Resolved Cons.IH [of "step (Arrive (Resolved st)) p"] by auto
    qed
  qed
qed

lemma progressTrace_never_decreases:
  "neverDecreases (reportedProgress evs) \<Longrightarrow> neverDecreases (progressTrace evs p)"
  unfolding neverDecreases_def
proof (induction evs arbitrary: p)
  case Nil
  then show ?case by simp
next
  case (Cons ev evs)
  show ?case
  proof (cases ev)
    case Fire
    then show ?thesis using Cons.IH [of "step Fire p"] Cons.prems by simp
  next
    case (Arrive outcome)
    show ?thesis
    proof (cases outcome)
      case (Rejected e)
      then show ?thesis
        using Arrive Cons.IH [of "step (Arrive (Rejected e)) p"] Cons.prems by simp
    next
      case (Resolved st)
      let ?q = "step (Arrive (Resolved st)) p"
      from Cons.prems Arrive Resolved
      have tail: "sorted_wrt (\<lambda>a b. \<not> num_less b a) (reportedProgress evs)"
        and hd: "\<forall>y\<in>set (reportedProgress evs). \<not> num_less y (js_progress st)"
        by simp_all
      have ih: "sorted_wrt (\<lambda>a b. \<not> num_less b a) (progressTrace evs ?q)"
        using tail by (rule Cons.IH)
      have below: "\<forall>y\<in>set (progressTrace evs ?q). \<not> num_less y (js_progress st)"
        using hd progressTrace_subset [of evs ?q] by blast
      show ?thesis
      proof (cases "inFlight p \<noteq> 0 \<and> polling p")
        case True
        have pr: "progress (store ?q) = js_progress st"
          using True by (simp add: poll_handle_Resolved_fields)
        have "progressTrace (ev # evs) p = js_progress st # progressTrace evs ?q"
          using True pr unfolding Arrive Resolved by simp
        then show ?thesis using ih below by simp
      next
        case False
        have "progressTrace (ev # evs) p = progressTrace evs ?q"
          using False unfolding Arrive Resolved by auto
        then show ?thesis using ih by simp
      qed
    qed
  qed
qed

text \<open>
  C6 (as amended). While the interval is registered, the status and progress held in the
  store after a status response is handled are exactly those it reports; a failed request
  leaves them as they were, and the interval firing leaves the store alone. So the stored
  progress never decreases as long as the progress reported by the responses, in the order
  in which they arrive, never decreases. Handling a failed request, a response reporting
  \<^verbatim>\<open>failed\<close>, or one reporting \<^verbatim>\<open>complete\<close> together with a result clears the interval,
  and no other response does; from then on the loop sends no further request, and when no
  request awaits its answer it no longer changes the store.
\<close>

theorem polling_follows_reports:
  "(polling p \<and> inFlight p \<noteq> 0 \<longrightarrow>
        status (store (step (Arrive (Resolved st)) p)) = js_status st
      \<and> progress (store (step (Arrive (Resolved st)) p)) = js_progress st
      \<and> status (store (step (Arrive (Rejected e)) p)) = status (store p)
      \<and> progress (store (step (Arrive (Rejected e)) p)) = progress (store p)
      \<and> polling (step (Arrive outcome) p) = (\<not> stops outcome))
   \<and> store (step Fire p) = store p
   \<and> (neverDecreases (reportedProgress evs) \<longrightarrow> neverDecreases (progressTrace evs p))
   \<and> (\<not> polling p \<longrightarrow> \<not> polling (run evs p) \<and> sent (run evs p) = sent p)
   \<and> (\<not> polling p \<and> inFlight p = 0 \<longrightarrow> run evs p = p)
   \<and> polling (pollJobStatus q) \<and> sent (pollJobStatus q) = Suc (sent q)
   \<and> inFlight (pollJobStatus q) = Suc (inFlight q) \<and> store (pollJobStatus q) = store q"
proof -
  have a: "polling p \<and> inFlight p \<noteq> 0 \<longrightarrow>
        status (store (step (Arrive (Resolved st)) p)) = js_status st
      \<and> progress (store (step (Arrive (Resolved st)) p)) = js_progress st
      \<and> status (store (step (Arrive (Rejected e)) p)) = status (store p)
      \<and> progress (store (step (Arrive (Rejected e)) p)) = progress (store p)
      \<and> polling (step (Arrive outcome) p) = (\<not> stops outcome)"
    by (simp add: poll_handle_Resolved_fields poll_handle_Rejected_fields poll_handle_polling)
  have b: "store (step Fire p) = store p"
    by (simp add: poll_send_def)
  have c: "neverDecreases (reportedProgress evs) \<longrightarrow> neverDecreases (progressTrace evs p)"
    by (simp add: progressTrace_never_decreases)
  have d: "\<not> polling p \<longrightarrow> \<not> polling (run evs p) \<and> sent (run evs p) = sent p"
    using run_stopped [of p evs] by simp
  have e: "\<not> polling p \<and> inFlight p = 0 \<longrightarrow> run evs p = p"
    by (simp add: run_idle)
  have f: "polling (pollJobStatus q) \<and> sent (pollJobStatus q) = Suc (sent q)
   \<and> inFlight (pollJobStatus q) = Suc (inFlight q) \<and> store (pollJobStatus q) = store q"
    by (simp add: pollJobStatus_def poll_send_def stopPolling_def)
  from a b c d e f show ?thesis by blast
qed

theorem polling_follows_reports_witness:
  "polling (pollJobStatus idlePoller) \<and> inFlight (pollJobStatus idlePoller) \<noteq> 0
   \<and> progress (store (step (Arrive (Resolved (sampleStatus Failed 40 None)))
        (pollJobStatus idlePoller))) = Fin 40
   \<and> \<not> polling (step (Arrive (Resolved (sampleStatus Failed 40 None))) (pollJobStatus idlePoller))
   \<and> neverDecreases (reportedProgress
        [Arrive (Resolved (sampleStatus Processing 10 None)), Fire,
         Arrive (Resolved (sampleStatus Separating 40 None))])
   \<and> neverDecreases (progressTrace
        [Arrive (Resolved (sampleStatus Processing 10 None)), Fire,
         Arrive (Resolved (sampleStatus Separating 40 None))] (pollJobStatus idlePoller))
   \<and> progressTrace
        [Arrive (Resolved (sampleStatus Processing 10 None)), Fire,
         Arrive (Resolved (sampleStatus Separating 40 None))] (pollJobStatus idlePoller)
       = [Fin 10, Fin 40]
   \<and> \<not> polling idlePoller \<and> inFlight idlePoller = 0
   \<and> run [Fire, Arrive (Resolved (sampleStatus Processing 10 None))] idlePoller = idlePoller"
  using polling_follows_reports
    [of "pollJobStatus idlePoller" "sampleStatus Failed 40 None" _
        "Resolved (sampleStatus Failed 40 None)"
        "[Arrive (Resolved (sampleStatus Processing 10 None)), Fire,
          Arrive (Resolved (sampleStatus Separating 40 None))]"]
    polling_follows_reports
    [of idlePoller _ _ _ "[Fire, Arrive (Resolved (sampleStatus Processing 10 None))]"]
  by (simp add: sampleStatus_def idlePoller_def pollJobStatus_def poll_send_def stopPolling_def
        neverDecreases_def poll_handle_def Let_def setCurrentStep_def setProgress_def
        setStatus_def)

text \<open>
  Three runs after \<^verbatim>\<open>pollJobStatus\<close>. The store takes whatever progress a response
  reports, also a smaller one. A response with status \<^verbatim>\<open>complete\<close> and no result leaves
  the interval registered, so a later response still changes status and progress. And
  when the answer to the second request, reporting \<^verbatim>\<open>failed\<close>, overtakes the answer to
  the first, the loop stops and the late answer then sets the status back to processing.
\<close>

theorem polling_counterexample:
  "progressTrace [Arrive (Resolved (sampleStatus Processing 50 None)), Fire,
                  Arrive (Resolved (sampleStatus Processing 30 None))]
      (pollJobStatus idlePoller) = [Fin 50, Fin 30]
   \<and> num_less (Fin 30) (Fin 50)
   \<and> status (store (run [Arrive (Resolved (sampleStatus Complete 100 None))]
        (pollJobStatus idlePoller))) = Complete
   \<and> polling (run [Arrive (Resolved (sampleStatus Complete 100 None))]
        (pollJobStatus idlePoller))
   \<and> status (store (run [Arrive (Resolved (sampleStatus Complete 100 None)), Fire,
                          Arrive (Resolved (sampleStatus Processing 40 None))]
        (pollJobStatus idlePoller))) = Processing
   \<and> progress (store (run [Arrive (Resolved (sampleStatus Complete 100 None)), Fire,
                          Arrive (Resolved (sampleStatus Processing 40 None))]
        (pollJobStatus idlePoller))) = Fin 40
   \<and> status (store (run [Fire, Arrive (Resolved (sampleStatus Failed 40 None))]
        (pollJobStatus idlePoller))) = Failed
   \<and> \<not> polling (run [Fire, Arrive (Resolved (sampleStatus Failed 40 None))]
        (pollJobStatus idlePoller))
   \<and> status (store (run [Fire, Arrive (Resolved (sampleStatus Failed 40 None)),
                          Arrive (Resolved (sampleStatus Processing 30 None))]
        (pollJobStatus idlePoller))) = Processing
   \<and> progress (store (run [Fire, Arrive (Resolved (sampleStatus Failed 40 None)),
                          Arrive (Resolved (sampleStatus Processing 30 None))]
        (pollJobStatus idlePoller))) = Fin 30"
  by (simp add: sampleStatus_def idlePoller_def pollJobStatus_def poll_send_def stopPolling_def
        poll_handle_def Let_def setCurrentStep_def setProgress_def setStatus_def setError_def)

section \<open>Properties of the file upload\<close>













section \<open>Properties of the mixing engine\<close>

lemma find_unmute:
  "find (\<lambda>c. P (rt_track_id c) (rt_solo c) (rt_volume c) (rt_is_main c))
        (map (\<lambda>c. c\<lparr>rt_muted := False\<rparr>) cs)
   = map_option (\<lambda>c. c\<lparr>rt_muted := False\<rparr>)
       (find (\<lambda>c. P (rt_track_id c) (rt_solo c) (rt_volume c) (rt_is_main c)) cs)"
  by (induction cs) simp_all

lemma unmute_withMuted:
  "length ms = length cs \<Longrightarrow>
     map (\<lambda>c. c\<lparr>rt_muted := False\<rparr>) (withMuted ms cs) = map (\<lambda>c. c\<lparr>rt_muted := False\<rparr>) cs"
  by (induction cs arbitrary: ms) (auto simp: withMuted_def length_Suc_conv)

lemma resolveTrack_unmute:
  assumes "map (\<lambda>c. c\<lparr>rt_muted := False\<rparr>) cs' = map (\<lambda>c. c\<lparr>rt_muted := False\<rparr>) cs"
  shows "(resolveTrack cs' t)\<lparr>rt_muted := False\<rparr> = (resolveTrack cs t)\<lparr>rt_muted := False\<rparr>"
proof -
  have "map_option (\<lambda>c. c\<lparr>rt_muted := False\<rparr>) (find (\<lambda>c. rt_track_id c = jt_id t) cs')
        = map_option (\<lambda>c. c\<lparr>rt_muted := False\<rparr>) (find (\<lambda>c. rt_track_id c = jt_id t) cs)"
    using find_unmute [of "\<lambda>i s v m. i = jt_id t" cs'] find_unmute [of "\<lambda>i s v m. i = jt_id t" cs]
      assms by simp
  then show ?thesis
    by (cases "find (\<lambda>c. rt_track_id c = jt_id t) cs'";
        cases "find (\<lambda>c. rt_track_id c = jt_id t) cs")
       (simp_all add: resolveTrack_def)
qed

lemma resolveTrack_fields:
  assumes "map (\<lambda>c. c\<lparr>rt_muted := False\<rparr>) cs' = map (\<lambda>c. c\<lparr>rt_muted := False\<rparr>) cs"
  shows "rt_solo (resolveTrack cs' t) = rt_solo (resolveTrack cs t)"
    and "rt_volume (resolveTrack cs' t) = rt_volume (resolveTrack cs t)"
proof -
  note e = resolveTrack_unmute [OF assms, of t]
  have "rt_solo ((resolveTrack cs' t)\<lparr>rt_muted := False\<rparr>) = rt_solo ((resolveTrack cs t)\<lparr>rt_muted := False\<rparr>)"
    by (simp only: e)
  then show "rt_solo (resolveTrack cs' t) = rt_solo (resolveTrack cs t)" by simp
  have "rt_volume ((resolveTrack cs' t)\<lparr>rt_muted := False\<rparr>) = rt_volume ((resolveTrack cs t)\<lparr>rt_muted := False\<rparr>)"
    by (simp only: e)
  then show "rt_volume (resolveTrack cs' t) = rt_volume (resolveTrack cs t)" by simp
qed

lemma mainTrackId_unmute:
  assumes "map (\<lambda>c. c\<lparr>rt_muted := False\<rparr>) cs' = map (\<lambda>c. c\<lparr>rt_muted := False\<rparr>) cs"
  shows "mainTrackId cs' = mainTrackId cs"
proof -
  have "map_option (\<lambda>c. c\<lparr>rt_muted := False\<rparr>) (find rt_is_main cs')
        = map_option (\<lambda>c. c\<lparr>rt_muted := False\<rparr>) (find rt_is_main cs)"
    using find_unmute [of "\<lambda>i s v m. m" cs'] find_unmute [of "\<lambda>i s v m. m" cs] assms by simp
  then have "map_option rt_track_id (map_option (\<lambda>c. c\<lparr>rt_muted := False\<rparr>) (find rt_is_main cs'))
        = map_option rt_track_id (map_option (\<lambda>c. c\<lparr>rt_muted := False\<rparr>) (find rt_is_main cs))"
    by (simp only:)
  then show ?thesis
    by (simp add: mainTrackId_def option.map_comp comp_def)
qed

lemma anySolo_unmute:
  assumes "map (\<lambda>c. c\<lparr>rt_muted := False\<rparr>) cs' = map (\<lambda>c. c\<lparr>rt_muted := False\<rparr>) cs"
  shows "anySolo cs' ts = anySolo cs ts"
  by (simp add: anySolo_def resolveTrack_fields(1) [OF assms])

lemma silent_unmute:
  assumes "map (\<lambda>c. c\<lparr>rt_muted := False\<rparr>) cs' = map (\<lambda>c. c\<lparr>rt_muted := False\<rparr>) cs"
    and "anySolo cs ts"
  shows "silent cs' ts t = silent cs ts t"
  using assms(2)
  by (simp add: silent_def anySolo_unmute [OF assms(1)] resolveTrack_fields(1) [OF assms(1)])

lemma trackGain_unmute:
  assumes "map (\<lambda>c. c\<lparr>rt_muted := False\<rparr>) cs' = map (\<lambda>c. c\<lparr>rt_muted := False\<rparr>) (rc_tracks cfg)"
  shows "trackGain d (cfg\<lparr>rc_tracks := cs'\<rparr>) t = trackGain d cfg t"
  by (simp add: trackGain_def mainTrackId_unmute [OF assms] resolveTrack_fields(2) [OF assms])

lemma render_unmute:
  assumes "map (\<lambda>c. c\<lparr>rt_muted := False\<rparr>) cs' = map (\<lambda>c. c\<lparr>rt_muted := False\<rparr>) (rc_tracks cfg)"
    and "anySolo (rc_tracks cfg) ts"
  shows "render d (cfg\<lparr>rc_tracks := cs'\<rparr>) ts = render d cfg ts"
  by (simp add: render_def mixdown_def trackGain_unmute [OF assms(1)]
        silent_unmute [OF assms(1) assms(2)])

text \<open>
  C1. When at least one track of the job is soloed, the rendered buffer does not depend on
  the muted flags: replacing the muted flags of the configuration's entries by any others
  gives the same render, and a track is silent exactly when it is not soloed. When no
  track is soloed, a track is silent exactly when it is muted.
\<close>

theorem solo_dominates_mute:
  "(anySolo (rc_tracks cfg) ts \<and> length ms = length (rc_tracks cfg)
      \<longrightarrow> render dbToLinear (cfg\<lparr>rc_tracks := withMuted ms (rc_tracks cfg)\<rparr>) ts
          = render dbToLinear cfg ts)
   \<and> (anySolo (rc_tracks cfg) ts
      \<longrightarrow> silent (rc_tracks cfg) ts t = (\<not> rt_solo (resolveTrack (rc_tracks cfg) t)))
   \<and> (\<not> anySolo (rc_tracks cfg) ts
      \<longrightarrow> silent (rc_tracks cfg) ts t = rt_muted (resolveTrack (rc_tracks cfg) t))"
  by (simp add: render_unmute unmute_withMuted silent_def)

theorem solo_dominates_mute_witness:
  "anySolo (rc_tracks (sampleRenderConfig True False False)) sampleJobTracks
   \<and> length [True, True] = length (rc_tracks (sampleRenderConfig True False False))
   \<and> render (\<lambda>x. 1) (sampleRenderConfig True True True) sampleJobTracks
       = render (\<lambda>x. 1) (sampleRenderConfig True False False) sampleJobTracks
   \<and> render (\<lambda>x. 1) (sampleRenderConfig True False False) sampleJobTracks = [1 / 2, - 1 / 4]
   \<and> \<not> anySolo (rc_tracks (sampleRenderConfig False True False)) sampleJobTracks
   \<and> render (\<lambda>x. 1) (sampleRenderConfig False True False) sampleJobTracks = [1 / 8, 1 / 8]"
  using solo_dominates_mute
    [of "sampleRenderConfig True False False" sampleJobTracks "[True, True]" "\<lambda>x. 1"]
  by (simp add: sampleRenderConfig_def sampleJobTracks_def withMuted_def anySolo_def
        resolveTrack_def render_def mixdown_def silent_def trackGain_def mainTrackId_def
        clamp_def finishBuffer_def)

end
